theory Spec2Isabelle
  imports Main "HOL-Library.AList"
begin

section \<open>Values exchanged over the real-time channel\<close>

type_synonym socketId = string
type_synonym userId = string
type_synonym roomId = string

text \<open>
  Objects that the server puts on the wire are kept as field lists, so that the presence
  or absence of a field in a forwarded payload can be inspected.
\<close>

datatype jsval =
    JUndefined
  | JNull
  | JBool bool
  | JNum nat
  | JStr string
  | JObj "(string \<times> jsval) list"
  | JArr "jsval list"

fun field :: "jsval \<Rightarrow> string \<Rightarrow> jsval" where
  "field (JObj fs) k = (case map_of fs k of Some v \<Rightarrow> v | None \<Rightarrow> JUndefined)"
| "field v k = JUndefined"

definition has_field :: "jsval \<Rightarrow> string \<Rightarrow> bool" where
  "has_field v k = (case v of JObj fs \<Rightarrow> k \<in> set (map fst fs) | _ \<Rightarrow> False)"

definition opt_str :: "string option \<Rightarrow> jsval" where
  "opt_str s = (case s of None \<Rightarrow> JNull | Some t \<Rightarrow> JStr t)"

section \<open>The storage collaborator\<close>

record user =
  u_id :: userId
  u_name :: "string option"
  u_email :: "string option"

record message =
  m_id :: nat
  m_content :: string
  m_type :: string
  m_imageUrl :: "string option"
  m_roomId :: roomId
  m_userId :: userId
  m_createdAt :: nat

record storage =
  roomMember :: "(roomId \<times> user) list"
  messages :: "message list"
  available :: bool
  now :: nat

record create_data =
  cd_content :: string
  cd_type :: string
  cd_imageUrl :: "string option"
  cd_roomId :: roomId
  cd_userId :: userId

text \<open>
  Modelled from the spec: the persistence service (the Prisma client and its database) is
  an external collaborator whose code is not in the repository. It keeps the durable
  roster of every room and the messages, assigns the id and the timestamp of a created
  message, and a call either resolves or rejects; \<open>available\<close> says which.
\<close>

definition roomMember_findMany :: "storage \<Rightarrow> roomId \<Rightarrow> user list option" where
  "roomMember_findMany d r =
     (if available d then Some (map snd (filter (\<lambda>row. fst row = r) (roomMember d)))
      else None)"

definition message_create :: "storage \<Rightarrow> create_data \<Rightarrow> (storage \<times> message) option" where
  "message_create d c =
     (if available d then
        (let m = \<lparr> m_id = length (messages d), m_content = cd_content c,
                    m_type = cd_type c, m_imageUrl = cd_imageUrl c,
                    m_roomId = cd_roomId c, m_userId = cd_userId c,
                    m_createdAt = now d \<rparr>
         in Some (d\<lparr> messages := messages d @ [m] \<rparr>, m))
      else None)"

definition roster :: "storage \<Rightarrow> roomId \<Rightarrow> userId set" where
  "roster d r = set (map (u_id \<circ> snd) (filter (\<lambda>row. fst row = r) (roomMember d)))"

definition message_json :: "message \<Rightarrow> jsval" where
  "message_json m =
     JObj [(''id'', JNum (m_id m)), (''content'', JStr (m_content m)),
           (''type'', JStr (m_type m)), (''imageUrl'', opt_str (m_imageUrl m)),
           (''roomId'', JStr (m_roomId m)), (''userId'', JStr (m_userId m)),
           (''createdAt'', JNum (m_createdAt m))]"

section \<open>Server state (src/server.ts)\<close>

text \<open>
  \<open>onlineUsers\<close> is the insertion-ordered map from room id to the set of user ids,
  \<open>userSockets\<close> the map from socket id to user id. \<open>rooms\<close> and \<open>connected\<close> are the
  transport library's view: which sockets are joined to which named room through
  \<open>socket.join\<close>, and which sockets are live. The private room that the transport keeps
  for each socket under the socket's own id is not part of \<open>rooms\<close>. The durable roster
  in \<open>db\<close> is written by the HTTP member routes; the server only reads it.
\<close>

record server =
  onlineUsers :: "(roomId \<times> userId set) list"
  userSockets :: "socketId \<rightharpoonup> userId"
  rooms :: "string \<Rightarrow> socketId set"
  connected :: "socketId set"
  db :: storage

definition init :: "storage \<Rightarrow> server" where
  "init d = \<lparr> onlineUsers = [], userSockets = Map.empty, rooms = (\<lambda>r. {}),
              connected = {}, db = d \<rparr>"

datatype target =
    ToAll
  | ToRoom string
  | ToSocket socketId
  | ToRoomExcept string socketId

datatype emission = Emit (em_target: target) (em_event: string) (em_payload: jsval)

text \<open>
  Who receives an emission: \<open>io.emit\<close> reaches every live socket, \<open>io.to(r).emit\<close> the
  sockets joined to \<open>r\<close>, \<open>socket.emit\<close> the socket itself and \<open>socket.to(r).emit\<close> the
  sockets joined to \<open>r\<close> other than the emitting one.
\<close>

fun recipients :: "server \<Rightarrow> target \<Rightarrow> socketId set" where
  "recipients st ToAll = connected st"
| "recipients st (ToRoom r) = rooms st r"
| "recipients st (ToSocket s) = {s}"
| "recipients st (ToRoomExcept r s) = rooms st r - {s}"

definition delivered :: "server \<Rightarrow> socketId \<Rightarrow> emission list \<Rightarrow> emission list" where
  "delivered st s ems = filter (\<lambda>e. s \<in> recipients st (em_target e)) ems"

definition socket_join :: "server \<Rightarrow> socketId \<Rightarrow> string \<Rightarrow> server" where
  "socket_join st s r = st\<lparr> rooms := (rooms st)(r := insert s (rooms st r)) \<rparr>"

definition socket_leave :: "server \<Rightarrow> socketId \<Rightarrow> string \<Rightarrow> server" where
  "socket_leave st s r = st\<lparr> rooms := (rooms st)(r := rooms st r - {s}) \<rparr>"

definition presence :: "server \<Rightarrow> roomId \<Rightarrow> userId set" where
  "presence st r = (case map_of (onlineUsers st) r of None \<Rightarrow> {} | Some us \<Rightarrow> us)"

text \<open>
  \<open>userSockets.get(socket.id)\<close> followed by \<open>if (!userId) return\<close>: an absent binding
  and the empty string are both falsy.
\<close>

definition bound_identity :: "server \<Rightarrow> socketId \<Rightarrow> userId option" where
  "bound_identity st s =
     (case userSockets st s of None \<Rightarrow> None
      | Some u \<Rightarrow> if u = [] then None else Some u)"

section \<open>Handlers\<close>

definition identify :: "server \<Rightarrow> socketId \<Rightarrow> userId \<Rightarrow> server \<times> emission list" where
  "identify st s uid =
     (st\<lparr> userSockets := (userSockets st)(s \<mapsto> uid) \<rparr>,
      [Emit ToAll ''user_online'' (JStr uid)])"

definition membersWithStatus :: "server \<Rightarrow> roomId \<Rightarrow> user list \<Rightarrow> jsval" where
  "membersWithStatus st r ms =
     JArr (map (\<lambda>u. JObj [(''id'', JStr (u_id u)), (''name'', opt_str (u_name u)),
                           (''email'', opt_str (u_email u)),
                           (''online'', JBool (u_id u \<in> presence st r))]) ms)"

text \<open>
  The join-room handler updates the presence map before it awaits the roster query; the
  model answers the query at once, so the snapshot is computed from the state the handler
  itself left. A rejected query is caught and logged, and nothing is broadcast.
\<close>

definition join_room :: "server \<Rightarrow> socketId \<Rightarrow> roomId \<Rightarrow> server \<times> emission list" where
  "join_room st s r =
     (case bound_identity st s of
        None \<Rightarrow> (st, [])
      | Some uid \<Rightarrow>
          (let st1 = socket_join st s r;
               ou1 = (if map_of (onlineUsers st1) r = None
                      then AList.update r {} (onlineUsers st1) else onlineUsers st1);
               ou2 = (case map_of ou1 r of
                        None \<Rightarrow> ou1
                      | Some us \<Rightarrow> AList.update r (insert uid us) ou1);
               st2 = st1\<lparr> onlineUsers := ou2 \<rparr>
           in case roomMember_findMany (db st2) r of
                None \<Rightarrow> (st2, [])
              | Some ms \<Rightarrow>
                  (st2, [Emit (ToRoom r) ''room_members_update'' (membersWithStatus st2 r ms)])))"

definition leave_room :: "server \<Rightarrow> socketId \<Rightarrow> roomId \<Rightarrow> server \<times> emission list" where
  "leave_room st s r =
     (case bound_identity st s of
        None \<Rightarrow> (st, [])
      | Some uid \<Rightarrow>
          (let st1 = socket_leave st s r;
               ou1 = (case map_of (onlineUsers st1) r of
                        None \<Rightarrow> onlineUsers st1
                      | Some us \<Rightarrow> AList.update r (us - {uid}) (onlineUsers st1));
               ou2 = (case map_of ou1 r of
                        None \<Rightarrow> ou1
                      | Some us \<Rightarrow> if us = {} then AList.delete r ou1 else ou1)
           in (st1\<lparr> onlineUsers := ou2 \<rparr>, [Emit (ToRoom r) ''user_offline'' (JStr uid)])))"

record send_data =
  sd_roomId :: roomId
  sd_message :: string
  sd_userId :: userId
  sd_type :: "string option"
  sd_imageUrl :: "string option"

definition send_message :: "server \<Rightarrow> socketId \<Rightarrow> send_data \<Rightarrow> server \<times> emission list" where
  "send_message st s d =
     (let ty = (case sd_type d of None \<Rightarrow> ''text'' | Some t \<Rightarrow> t) in
      case message_create (db st)
             \<lparr> cd_content = sd_message d, cd_type = ty, cd_imageUrl = sd_imageUrl d,
               cd_roomId = sd_roomId d, cd_userId = sd_userId d \<rparr> of
        Some (d', newMessage) \<Rightarrow>
          (st\<lparr> db := d' \<rparr>, [Emit (ToRoom (sd_roomId d)) ''new-message'' (message_json newMessage)])
      | None \<Rightarrow>
          (st, [Emit (ToSocket s) ''error''
                  (JObj [(''message'', JStr ''Failed to save message'')])]))"

text \<open>
  The loop of the disconnect handler over the entries of \<open>onlineUsers\<close>: an entry that
  holds the user loses it, is dropped when it becomes empty, and its room is sent one
  \<open>user_offline\<close>.
\<close>

fun sweep :: "userId \<Rightarrow> (roomId \<times> userId set) list
                \<Rightarrow> (roomId \<times> userId set) list \<times> emission list" where
  "sweep uid [] = ([], [])"
| "sweep uid ((r, users) # rest) =
     (let (rest', ems) = sweep uid rest in
      if uid \<in> users then
        ((if users - {uid} = {} then rest' else (r, users - {uid}) # rest'),
         Emit (ToRoom r) ''user_offline'' (JStr uid) # ems)
      else ((r, users) # rest', ems))"

text \<open>
  By the time the handler runs the transport has already taken the socket out of every
  room it had joined.
\<close>

definition socket_close :: "server \<Rightarrow> socketId \<Rightarrow> server" where
  "socket_close st s =
     st\<lparr> rooms := (\<lambda>r. rooms st r - {s}), connected := connected st - {s} \<rparr>"

definition disconnect :: "server \<Rightarrow> socketId \<Rightarrow> server \<times> emission list" where
  "disconnect st s =
     (let st0 = socket_close st s in
      case bound_identity st0 s of
        None \<Rightarrow> (st0, [])
      | Some uid \<Rightarrow>
          (let (ou, ems) = sweep uid (onlineUsers st0)
           in (st0\<lparr> onlineUsers := ou, userSockets := (userSockets st0)(s := None) \<rparr>,
               ems @ [Emit ToAll ''user_offline'' (JStr uid)])))"

record update_data =
  ud_roomId :: roomId
  ud_messageId :: jsval
  ud_content :: jsval

definition message_updated :: "server \<Rightarrow> socketId \<Rightarrow> update_data \<Rightarrow> server \<times> emission list" where
  "message_updated st s d =
     (st, [Emit (ToRoom (ud_roomId d)) ''message_updated''
             (JObj [(''messageId'', ud_messageId d), (''content'', ud_content d)])])"

definition message_deleted :: "server \<Rightarrow> socketId \<Rightarrow> update_data \<Rightarrow> server \<times> emission list" where
  "message_deleted st s d =
     (st, [Emit (ToRoom (ud_roomId d)) ''message_deleted''
             (JObj [(''messageId'', ud_messageId d)])])"

subsection \<open>Call signalling\<close>

record video_data =
  vd_roomId :: roomId
  vd_userId :: userId
  vd_isAudioOnly :: "bool option"

record signal_data =
  sg_roomId :: roomId
  sg_userId :: userId
  sg_targetUserId :: userId
  sg_payload :: jsval

definition video_room :: "roomId \<Rightarrow> string" where
  "video_room r = ''video-'' @ r"

definition join_video_chat :: "server \<Rightarrow> socketId \<Rightarrow> video_data \<Rightarrow> server \<times> emission list" where
  "join_video_chat st s d =
     (socket_join st s (video_room (vd_roomId d)),
      [Emit (ToRoomExcept (video_room (vd_roomId d)) s) ''user-joined-video''
         (JObj [(''userId'', JStr (vd_userId d))])])"

definition leave_video_chat :: "server \<Rightarrow> socketId \<Rightarrow> video_data \<Rightarrow> server \<times> emission list" where
  "leave_video_chat st s d =
     (socket_leave st s (video_room (vd_roomId d)),
      [Emit (ToRoom (video_room (vd_roomId d))) ''user-left-video''
         (JObj [(''userId'', JStr (vd_userId d))])])"

definition video_offer :: "server \<Rightarrow> socketId \<Rightarrow> signal_data \<Rightarrow> server \<times> emission list" where
  "video_offer st s d =
     (st, [Emit (ToRoom (video_room (sg_roomId d))) ''video-offer''
             (JObj [(''userId'', JStr (sg_userId d)), (''offer'', sg_payload d)])])"

definition video_answer :: "server \<Rightarrow> socketId \<Rightarrow> signal_data \<Rightarrow> server \<times> emission list" where
  "video_answer st s d =
     (st, [Emit (ToRoom (video_room (sg_roomId d))) ''video-answer''
             (JObj [(''userId'', JStr (sg_userId d)), (''answer'', sg_payload d)])])"

definition ice_candidate :: "server \<Rightarrow> socketId \<Rightarrow> signal_data \<Rightarrow> server \<times> emission list" where
  "ice_candidate st s d =
     (st, [Emit (ToRoom (video_room (sg_roomId d))) ''ice-candidate''
             (JObj [(''userId'', JStr (sg_userId d)), (''candidate'', sg_payload d)])])"

subsection \<open>Event loop\<close>

datatype event =
    Connect socketId
  | Identify socketId userId
  | JoinRoom socketId roomId
  | LeaveRoom socketId roomId
  | SendMessage socketId send_data
  | Disconnect socketId
  | MessageUpdated socketId update_data
  | MessageDeleted socketId update_data
  | JoinVideoChat socketId video_data
  | LeaveVideoChat socketId video_data
  | VideoOffer socketId signal_data
  | VideoAnswer socketId signal_data
  | IceCandidate socketId signal_data
  | StorageAvailable bool

fun origin :: "event \<Rightarrow> socketId option" where
  "origin (Connect s) = None"
| "origin (Identify s u) = Some s"
| "origin (JoinRoom s r) = Some s"
| "origin (LeaveRoom s r) = Some s"
| "origin (SendMessage s d) = Some s"
| "origin (Disconnect s) = Some s"
| "origin (MessageUpdated s d) = Some s"
| "origin (MessageDeleted s d) = Some s"
| "origin (JoinVideoChat s d) = Some s"
| "origin (LeaveVideoChat s d) = Some s"
| "origin (VideoOffer s d) = Some s"
| "origin (VideoAnswer s d) = Some s"
| "origin (IceCandidate s d) = Some s"
| "origin (StorageAvailable b) = None"

fun handle :: "server \<Rightarrow> event \<Rightarrow> server \<times> emission list" where
  "handle st (Connect s) = (st\<lparr> connected := insert s (connected st) \<rparr>, [])"
| "handle st (Identify s u) = identify st s u"
| "handle st (JoinRoom s r) = join_room st s r"
| "handle st (LeaveRoom s r) = leave_room st s r"
| "handle st (SendMessage s d) = send_message st s d"
| "handle st (Disconnect s) = disconnect st s"
| "handle st (MessageUpdated s d) = message_updated st s d"
| "handle st (MessageDeleted s d) = message_deleted st s d"
| "handle st (JoinVideoChat s d) = join_video_chat st s d"
| "handle st (LeaveVideoChat s d) = leave_video_chat st s d"
| "handle st (VideoOffer s d) = video_offer st s d"
| "handle st (VideoAnswer s d) = video_answer st s d"
| "handle st (IceCandidate s d) = ice_candidate st s d"
| "handle st (StorageAvailable b) = (st\<lparr> db := (db st)\<lparr> available := b \<rparr> \<rparr>, [])"

text \<open>
  Handlers are registered per connection, so an event of a socket that is not live
  reaches no handler. \<open>Connect\<close> is the arrival of a connection and
  \<open>StorageAvailable\<close> the storage becoming reachable or unreachable between two events.
\<close>

definition step :: "server \<Rightarrow> event \<Rightarrow> server \<times> emission list" where
  "step st e =
     (case origin e of
        None \<Rightarrow> handle st e
      | Some s \<Rightarrow> if s \<in> connected st then handle st e else (st, []))"

fun run :: "server \<Rightarrow> event list \<Rightarrow> server" where
  "run st [] = st"
| "run st (e # es) = run (fst (step st e)) es"

section \<open>Call client (src/app/components/chat/video-chat.tsx)\<close>

subsection \<open>Media acquisition\<close>

datatype thrown = ErrorObj (err_name: string) (err_message: string) | OtherThrown

datatype audio_constraint = AudioAbsent | AudioTrue | AudioProcessing
datatype video_constraint = VideoAbsent | VideoFalse | VideoTrue | VideoIdeal

record constraints =
  c_audio :: audio_constraint
  c_video :: video_constraint

record media_stream =
  audio_tracks :: nat
  video_tracks :: nat

record devices =
  dv_video :: bool
  dv_audio :: bool

text \<open>
  \<open>navigator.mediaDevices.getUserMedia\<close> belongs to the browser; the client functions
  take it as a parameter, a function from the requested constraints to a stream or the
  thrown error.
\<close>

type_synonym getUserMedia = "constraints \<Rightarrow> thrown + media_stream"

definition checkMediaDevices :: "getUserMedia \<Rightarrow> thrown + devices" where
  "checkMediaDevices gum =
     (case gum \<lparr> c_audio = AudioTrue, c_video = VideoAbsent \<rparr> of
        Inl err \<Rightarrow> Inl err
      | Inr a \<Rightarrow>
          (case gum \<lparr> c_audio = AudioAbsent, c_video = VideoTrue \<rparr> of
             Inr v \<Rightarrow> Inr \<lparr> dv_video = True, dv_audio = True \<rparr>
           | Inl videoErr \<Rightarrow> Inr \<lparr> dv_video = False, dv_audio = True \<rparr>))"

definition errorMessage :: "thrown \<Rightarrow> string" where
  "errorMessage err =
     (case err of
        OtherThrown \<Rightarrow> ''Error accessing media devices. ''
      | ErrorObj n m \<Rightarrow>
          if n = ''NotFoundError''
          then ''No camera or microphone found. Please connect a device and try again.''
          else if n = ''NotAllowedError''
          then ''Please allow access to your camera and/or microphone to use chat.''
          else if n = ''NotReadableError''
          then ''Your camera or microphone is already in use by another application.''
          else ''Error accessing media devices. '' @ m)"

datatype client_msg =
    EmitJoinVideoChat video_data
  | EmitLeaveVideoChat video_data
  | EmitVideoOffer signal_data
  | EmitVideoAnswer signal_data
  | EmitIceCandidate signal_data

fun to_event :: "socketId \<Rightarrow> client_msg \<Rightarrow> event" where
  "to_event s (EmitJoinVideoChat d) = JoinVideoChat s d"
| "to_event s (EmitLeaveVideoChat d) = LeaveVideoChat s d"
| "to_event s (EmitVideoOffer d) = VideoOffer s d"
| "to_event s (EmitVideoAnswer d) = VideoAnswer s d"
| "to_event s (EmitIceCandidate d) = IceCandidate s d"

record peer_connection =
  pc_tracks :: nat
  pc_remote :: "jsval option"
  pc_local :: "jsval option"
  pc_candidates :: "jsval list"
  pc_closed :: bool

text \<open>
  The component's props and state, as the handler that runs sees them.
\<close>

record client =
  cl_roomId :: roomId
  cl_userId :: userId
  peers :: "(userId \<times> peer_connection) list"
  streams :: "(userId \<times> media_stream) list"
  localStream :: "media_stream option"
  isMuted :: bool
  isVideoOff :: bool
  error :: "string option"
  isAudioOnly :: bool

definition initializeMediaStream :: "getUserMedia \<Rightarrow> client \<Rightarrow> client \<times> client_msg list" where
  "initializeMediaStream gum c =
     (case checkMediaDevices gum of
        Inl err \<Rightarrow> (c\<lparr> error := Some (errorMessage err) \<rparr>, [])
      | Inr dv \<Rightarrow>
          (let c1 = c\<lparr> isAudioOnly := \<not> dv_video dv \<rparr> in
           case gum \<lparr> c_audio = AudioProcessing,
                       c_video = (if dv_video dv then VideoIdeal else VideoFalse) \<rparr> of
             Inl err \<Rightarrow> (c1\<lparr> error := Some (errorMessage err) \<rparr>, [])
           | Inr stream \<Rightarrow>
               (c1\<lparr> localStream := Some stream, error := None \<rparr>,
                [EmitJoinVideoChat \<lparr> vd_roomId = cl_roomId c, vd_userId = cl_userId c,
                                     vd_isAudioOnly = Some (\<not> dv_video dv) \<rparr>])))"

text \<open>The "Try audio only" button.\<close>

definition tryAudioOnly :: "getUserMedia \<Rightarrow> client \<Rightarrow> client \<times> client_msg list" where
  "tryAudioOnly gum c =
     (let c1 = c\<lparr> isAudioOnly := True \<rparr> in
      case gum \<lparr> c_audio = AudioProcessing, c_video = VideoFalse \<rparr> of
        Inr stream \<Rightarrow>
          (c1\<lparr> localStream := Some stream, error := None \<rparr>,
           [EmitJoinVideoChat \<lparr> vd_roomId = cl_roomId c, vd_userId = cl_userId c,
                                vd_isAudioOnly = Some True \<rparr>])
      | Inl err \<Rightarrow>
          (c1\<lparr> error := Some ''Failed to start audio-only mode. Please check your microphone.'' \<rparr>,
           []))"

datatype tile = VideoElement | AudioOnlyPlaceholder

definition local_tile :: "client \<Rightarrow> tile" where
  "local_tile c = (if isAudioOnly c then AudioOnlyPlaceholder else VideoElement)"

definition remote_tile :: "media_stream \<Rightarrow> tile" where
  "remote_tile stream = (if video_tracks stream > 0 then VideoElement else AudioOnlyPlaceholder)"

subsection \<open>Peer links\<close>

text \<open>
  The browser's peer-connection engine, a parameter as well: each operation resolves to a
  value or rejects (\<open>None\<close>).
\<close>

record webrtc =
  createOffer :: "peer_connection \<Rightarrow> jsval option"
  createAnswer :: "peer_connection \<Rightarrow> jsval option"
  setRemoteDescription :: "peer_connection \<Rightarrow> jsval \<Rightarrow> peer_connection option"
  setLocalDescription :: "peer_connection \<Rightarrow> jsval \<Rightarrow> peer_connection option"
  addIceCandidate :: "peer_connection \<Rightarrow> jsval \<Rightarrow> peer_connection option"

datatype completion = Done | Rejected

definition createPeerConnection :: "client \<Rightarrow> userId \<Rightarrow> peer_connection" where
  "createPeerConnection c peerId =
     \<lparr> pc_tracks = (case localStream c of None \<Rightarrow> 0
                     | Some ls \<Rightarrow> audio_tracks ls + video_tracks ls),
       pc_remote = None, pc_local = None, pc_candidates = [], pc_closed = False \<rparr>"

definition setPeer :: "client \<Rightarrow> userId \<Rightarrow> peer_connection \<Rightarrow> client" where
  "setPeer c peerId pc = c\<lparr> peers := AList.update peerId pc (peers c) \<rparr>"

definition on_user_joined_video ::
  "webrtc \<Rightarrow> client \<Rightarrow> userId \<Rightarrow> client \<times> client_msg list \<times> completion" where
  "on_user_joined_video w c peerId =
     (let pc = createPeerConnection c peerId; c1 = setPeer c peerId pc in
      if localStream c \<noteq> None then
        (case createOffer w pc of
           None \<Rightarrow> (c1, [], Rejected)
         | Some offer \<Rightarrow>
             (case setLocalDescription w pc offer of
                None \<Rightarrow> (c1, [], Rejected)
              | Some pc1 \<Rightarrow>
                  (setPeer c1 peerId pc1,
                   [EmitVideoOffer \<lparr> sg_roomId = cl_roomId c, sg_userId = cl_userId c,
                                     sg_targetUserId = peerId, sg_payload = offer \<rparr>],
                   Done)))
      else (c1, [], Done))"

definition on_video_offer ::
  "webrtc \<Rightarrow> client \<Rightarrow> userId \<Rightarrow> jsval \<Rightarrow> client \<times> client_msg list \<times> completion" where
  "on_video_offer w c peerId offer =
     (let pc = createPeerConnection c peerId; c1 = setPeer c peerId pc in
      case setRemoteDescription w pc offer of
        None \<Rightarrow> (c1, [], Rejected)
      | Some pc1 \<Rightarrow>
          (case createAnswer w pc1 of
             None \<Rightarrow> (setPeer c1 peerId pc1, [], Rejected)
           | Some answer \<Rightarrow>
               (case setLocalDescription w pc1 answer of
                  None \<Rightarrow> (setPeer c1 peerId pc1, [], Rejected)
                | Some pc2 \<Rightarrow>
                    (setPeer c1 peerId pc2,
                     [EmitVideoAnswer \<lparr> sg_roomId = cl_roomId c, sg_userId = cl_userId c,
                                        sg_targetUserId = peerId, sg_payload = answer \<rparr>],
                     Done))))"

definition on_video_answer ::
  "webrtc \<Rightarrow> client \<Rightarrow> userId \<Rightarrow> jsval \<Rightarrow> client \<times> client_msg list \<times> completion" where
  "on_video_answer w c peerId answer =
     (case map_of (peers c) peerId of
        None \<Rightarrow> (c, [], Done)
      | Some peerConnection \<Rightarrow>
          (case setRemoteDescription w peerConnection answer of
             None \<Rightarrow> (c, [], Rejected)
           | Some pc1 \<Rightarrow> (setPeer c peerId pc1, [], Done)))"

definition on_ice_candidate ::
  "webrtc \<Rightarrow> client \<Rightarrow> userId \<Rightarrow> jsval \<Rightarrow> client \<times> client_msg list \<times> completion" where
  "on_ice_candidate w c peerId candidate =
     (case map_of (peers c) peerId of
        None \<Rightarrow> (c, [], Done)
      | Some peerConnection \<Rightarrow>
          (case addIceCandidate w peerConnection candidate of
             None \<Rightarrow> (c, [], Rejected)
           | Some pc1 \<Rightarrow> (setPeer c peerId pc1, [], Done)))"

definition on_user_left_video :: "client \<Rightarrow> userId \<Rightarrow> client \<times> client_msg list \<times> completion" where
  "on_user_left_video c peerId =
     (case map_of (peers c) peerId of
        None \<Rightarrow> (c, [], Done)
      | Some peerConnection \<Rightarrow>
          (c\<lparr> peers := AList.delete peerId (peers c),
              streams := AList.delete peerId (streams c) \<rparr>, [], Done))"

text \<open>
  Dispatch of an event received from the relay: the handler destructures \<open>userId\<close> (as
  \<open>peerId\<close>) and the signalling field from the payload. The relay puts a string under
  \<open>userId\<close>; a payload of another shape, and an event this component does not listen
  to, are outside the model (\<open>None\<close>).
\<close>

definition client_receive ::
  "webrtc \<Rightarrow> client \<Rightarrow> string \<Rightarrow> jsval \<Rightarrow> (client \<times> client_msg list \<times> completion) option" where
  "client_receive w c ev payload =
     (case field payload ''userId'' of
        JStr peerId \<Rightarrow>
          if ev = ''user-joined-video'' then Some (on_user_joined_video w c peerId)
          else if ev = ''video-offer''
          then Some (on_video_offer w c peerId (field payload ''offer''))
          else if ev = ''video-answer''
          then Some (on_video_answer w c peerId (field payload ''answer''))
          else if ev = ''ice-candidate''
          then Some (on_ice_candidate w c peerId (field payload ''candidate''))
          else if ev = ''user-left-video'' then Some (on_user_left_video c peerId)
          else None
      | _ \<Rightarrow> None)"

section \<open>Well-formed states, example states and inputs\<close>

text \<open>The keys of \<open>onlineUsers\<close> are those of a map: no room id occurs twice.\<close>

definition well_formed :: "server \<Rightarrow> bool" where
  "well_formed st = distinct (map fst (onlineUsers st))"

definition demo_db :: storage where
  "demo_db = \<lparr> roomMember = [(''r1'', \<lparr> u_id = ''u1'', u_name = Some ''Ann'', u_email = None \<rparr>)],
               messages = [], available = True, now = 7 \<rparr>"

text \<open>One user with two live connections, none of them in a room yet.\<close>

definition two_tabs :: server where
  "two_tabs = \<lparr> onlineUsers = [], userSockets = [''s1'' \<mapsto> ''u1'', ''s2'' \<mapsto> ''u1''],
                rooms = (\<lambda>r. {}), connected = {''s1'', ''s2''}, db = demo_db \<rparr>"

text \<open>Three connections; the first two are joined to room r1, the third to room r2.\<close>

definition chat_rooms :: server where
  "chat_rooms = \<lparr> onlineUsers = [(''r1'', {''u1'', ''u2''}), (''r2'', {''u3''})],
                  userSockets = [''s1'' \<mapsto> ''u1'', ''s2'' \<mapsto> ''u2'', ''s3'' \<mapsto> ''u3''],
                  rooms = (\<lambda>r. if r = ''r1'' then {''s1'', ''s2''}
                                else if r = ''r2'' then {''s3''} else {}),
                  connected = {''s1'', ''s2'', ''s3''}, db = demo_db \<rparr>"

definition hello :: send_data where
  "hello = \<lparr> sd_roomId = ''r1'', sd_message = ''hi'', sd_userId = ''u1'',
             sd_type = None, sd_imageUrl = None \<rparr>"

definition hello_row :: message where
  "hello_row = \<lparr> m_id = 0, m_content = ''hi'', m_type = ''text'', m_imageUrl = None,
                 m_roomId = ''r1'', m_userId = ''u1'', m_createdAt = 7 \<rparr>"

text \<open>Three participants in the call of room r1.\<close>

definition call_room :: server where
  "call_room = \<lparr> onlineUsers = [],
                 userSockets = [''s1'' \<mapsto> ''u1'', ''s2'' \<mapsto> ''u2'', ''s3'' \<mapsto> ''u3''],
                 rooms = (\<lambda>r. if r = ''video-r1'' then {''s1'', ''s2'', ''s3''} else {}),
                 connected = {''s1'', ''s2'', ''s3''}, db = demo_db \<rparr>"

definition offer_to_u2 :: signal_data where
  "offer_to_u2 = \<lparr> sg_roomId = ''r1'', sg_userId = ''u1'', sg_targetUserId = ''u2'',
                   sg_payload = JStr ''sdp-offer'' \<rparr>"

definition relayed_offer :: emission where
  "relayed_offer = Emit (ToRoom ''video-r1'') ''video-offer''
                     (JObj [(''userId'', JStr ''u1''), (''offer'', JStr ''sdp-offer'')])"

text \<open>A browser engine that accepts every description and candidate.\<close>

definition permissive :: webrtc where
  "permissive = \<lparr> createOffer = (\<lambda>pc. Some (JStr ''sdp-offer'')),
                  createAnswer = (\<lambda>pc. Some (JStr ''sdp-answer'')),
                  setRemoteDescription = (\<lambda>pc d. Some (pc\<lparr> pc_remote := Some d \<rparr>)),
                  setLocalDescription = (\<lambda>pc d. Some (pc\<lparr> pc_local := Some d \<rparr>)),
                  addIceCandidate = (\<lambda>pc c. Some (pc\<lparr> pc_candidates := pc_candidates pc @ [c] \<rparr>)) \<rparr>"

definition bystander :: client where
  "bystander = \<lparr> cl_roomId = ''r1'', cl_userId = ''u3'', peers = [], streams = [],
                 localStream = Some \<lparr> audio_tracks = 1, video_tracks = 1 \<rparr>,
                 isMuted = False, isVideoOff = False, error = None, isAudioOnly = False \<rparr>"

definition answered_link :: peer_connection where
  "answered_link = \<lparr> pc_tracks = 2, pc_remote = Some (JStr ''sdp-offer''),
                     pc_local = Some (JStr ''sdp-answer''), pc_candidates = [], pc_closed = False \<rparr>"

text \<open>A device with a working microphone whose camera is refused.\<close>

definition microphone_only :: getUserMedia where
  "microphone_only cs =
     (if c_video cs = VideoTrue \<or> c_video cs = VideoIdeal
      then Inl (ErrorObj ''NotAllowedError'' ''Permission denied'')
      else Inr \<lparr> audio_tracks = 1, video_tracks = 0 \<rparr>)"

definition caller :: client where
  "caller = \<lparr> cl_roomId = ''r1'', cl_userId = ''u1'', peers = [], streams = [],
              localStream = None, isMuted = False, isVideoOff = False, error = None,
              isAudioOnly = False \<rparr>"

definition audio_only_join :: video_data where
  "audio_only_join = \<lparr> vd_roomId = ''r1'', vd_userId = ''u1'', vd_isAudioOnly = Some True \<rparr>"

subsection \<open>Conditions on event sequences and the linking invariant\<close>

text \<open>
  \<open>join_by_member\<close>: a join-room that takes effect comes from an identity of the room's
  durable roster. \<open>is_call_channel\<close>: the name is one the call signalling uses.
  \<open>joined_nowhere\<close>: the connection is joined to no room with a presence record, call
  channels apart. \<open>identify_permitted\<close>: an identify that takes effect names an identity
  that no other live connection holds, and it changes an identity the connection already
  has only while the connection is joined nowhere; repeating the identify with the same
  identity is always permitted. \<open>linked\<close> ties, for the rooms that are not call
  channels, the presence sets to the connections joined to the room.
\<close>

definition join_by_member :: "server \<Rightarrow> event \<Rightarrow> bool" where
  "join_by_member st e =
     (case e of
        JoinRoom s r \<Rightarrow>
          (case bound_identity st s of
             None \<Rightarrow> True
           | Some uid \<Rightarrow> s \<notin> connected st \<or> uid \<in> roster (db st) r)
      | _ \<Rightarrow> True)"

fun joins_within_roster :: "server \<Rightarrow> event list \<Rightarrow> bool" where
  "joins_within_roster st [] = True"
| "joins_within_roster st (e # es) =
     (join_by_member st e \<and> joins_within_roster (fst (step st e)) es)"






text \<open>
  The rooms whose presence set holds the identity, in the order of the presence map.
\<close>

definition affected_rooms :: "server \<Rightarrow> userId \<Rightarrow> roomId list" where
  "affected_rooms st uid = filter (\<lambda>r. uid \<in> presence st r) (map fst (onlineUsers st))"

text \<open>Two users, one connection each, both joined to rooms r1 and r2.\<close>

definition shared_rooms :: server where
  "shared_rooms = \<lparr> onlineUsers = [(''r1'', {''u1'', ''u2''}), (''r2'', {''u1'', ''u2''})],
                    userSockets = [''s1'' \<mapsto> ''u1'', ''s2'' \<mapsto> ''u2''],
                    rooms = (\<lambda>r. if r = ''r1'' \<or> r = ''r2'' then {''s1'', ''s2''} else {}),
                    connected = {''s1'', ''s2''}, db = demo_db \<rparr>"




section \<open>Effect of each handler on the state\<close>

subsection \<open>identify\<close>

lemma identify_views:
  "onlineUsers (fst (identify st s u)) = onlineUsers st"
  "userSockets (fst (identify st s u)) = (userSockets st)(s \<mapsto> u)"
  "rooms (fst (identify st s u)) = rooms st"
  "connected (fst (identify st s u)) = connected st"
  "db (fst (identify st s u)) = db st"
  by (simp_all add: identify_def)

subsection \<open>join-room\<close>

lemma bound_identity_cong:
  "userSockets st' = userSockets st \<Longrightarrow> bound_identity st' = bound_identity st"
  by (simp add: bound_identity_def fun_eq_iff)


lemma join_room_unbound: "bound_identity st s = None \<Longrightarrow> join_room st s r = (st, [])"
  by (simp add: join_room_def)

lemma onlineUsers_join_room:
  "bound_identity st s = Some uid \<Longrightarrow>
   onlineUsers (fst (join_room st s r)) = AList.update r (insert uid (presence st r)) (onlineUsers st)"
  by (auto simp: join_room_def socket_join_def presence_def Let_def update_conv'
           split: option.splits)

lemma join_room_views:
  "bound_identity st s = Some uid \<Longrightarrow> userSockets (fst (join_room st s r)) = userSockets st"
  "bound_identity st s = Some uid \<Longrightarrow> rooms (fst (join_room st s r)) = (rooms st)(r := insert s (rooms st r))"
  "bound_identity st s = Some uid \<Longrightarrow> connected (fst (join_room st s r)) = connected st"
  "bound_identity st s = Some uid \<Longrightarrow> db (fst (join_room st s r)) = db st"
  by (auto simp: join_room_def socket_join_def Let_def split: option.splits)

lemma presence_join_room:
  "bound_identity st s = Some uid \<Longrightarrow>
   presence (fst (join_room st s r)) r' = (if r' = r then insert uid (presence st r) else presence st r')"
  by (simp add: onlineUsers_join_room presence_def update_conv')

subsection \<open>leave-room\<close>

lemma leave_room_unbound: "bound_identity st s = None \<Longrightarrow> leave_room st s r = (st, [])"
  by (simp add: leave_room_def)


lemma presence_leave_room:
  "bound_identity st s = Some uid \<Longrightarrow>
   presence (fst (leave_room st s r)) r' = (if r' = r then presence st r - {uid} else presence st r')"
  by (auto simp: leave_room_def socket_leave_def presence_def Let_def update_conv' delete_conv'
           split: option.splits)

lemma keys_leave_room:
  "distinct (map fst (onlineUsers st)) \<Longrightarrow> distinct (map fst (onlineUsers (fst (leave_room st s r))))"
  by (auto simp: leave_room_def socket_leave_def Let_def distinct_update distinct_delete
           split: option.splits)

lemma keys_join_room:
  "distinct (map fst (onlineUsers st)) \<Longrightarrow> distinct (map fst (onlineUsers (fst (join_room st s r))))"
  by (auto simp: join_room_def socket_join_def Let_def distinct_update
           split: option.splits)

subsection \<open>disconnect\<close>

lemma sweep_keys_mem: "k \<in> fst ` set (fst (sweep uid al)) \<Longrightarrow> k \<in> fst ` set al"
  by (induction al) (force simp: Let_def split: prod.splits if_splits)+

lemma sweep_keys: "set (map fst (fst (sweep uid al))) \<subseteq> set (map fst al)"
  using sweep_keys_mem by fastforce

lemma sweep_distinct: "distinct (map fst al) \<Longrightarrow> distinct (map fst (fst (sweep uid al)))"
proof (induction al)
  case Nil
  then show ?case by simp
next
  case (Cons a al)
  obtain r users where a: "a = (r, users)" by (cases a)
  have "r \<notin> set (map fst (fst (sweep uid al)))"
    using Cons.prems a sweep_keys[of uid al] by auto
  with Cons a show ?case
    by (auto simp: Let_def split: prod.splits)
qed

lemma sweep_map_of:
  "distinct (map fst al) \<Longrightarrow>
   map_of (fst (sweep uid al)) r =
     (case map_of al r of None \<Rightarrow> None
      | Some users \<Rightarrow> if users - {uid} = {} \<and> uid \<in> users then None else Some (users - {uid}))"
proof (induction al)
  case Nil
  then show ?case by simp
next
  case (Cons a al)
  obtain r' users where a: "a = (r', users)" by (cases a)
  have notin: "r' \<notin> set (map fst (fst (sweep uid al)))"
    using Cons.prems a sweep_keys[of uid al] by auto
  then have none: "map_of (fst (sweep uid al)) r' = None"
    by (simp add: map_of_eq_None_iff)
  show ?case
  proof (cases "r = r'")
    case True
    then show ?thesis using a none by (auto simp: Let_def split: prod.splits)
  next
    case False
    then show ?thesis using a Cons by (auto simp: Let_def split: prod.splits)
  qed
qed

lemma sweep_count:
  "distinct (map fst al) \<Longrightarrow>
   count_list (snd (sweep uid al)) e =
     (case e of
        Emit (ToRoom r) ev p \<Rightarrow>
          (if ev = ''user_offline'' \<and> p = JStr uid \<and> (\<exists>users. map_of al r = Some users \<and> uid \<in> users)
           then 1 else 0)
      | _ \<Rightarrow> 0)"
proof (induction al)
  case Nil
  then show ?case by (auto split: emission.splits target.splits)
next
  case (Cons a al)
  obtain r' users where a: "a = (r', users)" by (cases a)
  have notin: "map_of al r' = None"
    using Cons.prems a by (simp add: map_of_eq_None_iff)
  show ?case
    using Cons a notin
    by (auto simp: Let_def split: prod.splits emission.splits target.splits)
qed

lemma sweep_absent:
  "\<forall>(r, users) \<in> set al. uid \<notin> users \<Longrightarrow> sweep uid al = (al, [])"
  by (induction al) (auto simp: Let_def split: prod.splits)

lemma disconnect_unbound:
  "bound_identity st s = None \<Longrightarrow> disconnect st s = (socket_close st s, [])"
  by (simp add: disconnect_def socket_close_def bound_identity_def Let_def)

lemma disconnect_bound:
  "bound_identity st s = Some uid \<Longrightarrow>
   disconnect st s =
     ((socket_close st s)\<lparr> onlineUsers := fst (sweep uid (onlineUsers st)),
                            userSockets := (userSockets st)(s := None) \<rparr>,
      snd (sweep uid (onlineUsers st)) @ [Emit ToAll ''user_offline'' (JStr uid)])"
  by (simp add: disconnect_def socket_close_def bound_identity_def Let_def split: prod.splits)

lemma presence_disconnect:
  assumes "bound_identity st s = Some uid" "distinct (map fst (onlineUsers st))"
  shows "presence (fst (disconnect st s)) r = presence st r - {uid}"
  using assms
  by (auto simp: disconnect_bound presence_def sweep_map_of split: option.splits if_splits)

lemma two_tabs_reachable:
  "run (init demo_db)
     [Connect ''s1'', Connect ''s2'', Identify ''s1'' ''u1'', Identify ''s2'' ''u1''] = two_tabs"
  by (auto simp: two_tabs_def init_def step_def identify_def fun_upd_twist)

lemma room_operations_before_identify:
  "bound_identity st s = None \<Longrightarrow>
   handle st (JoinRoom s r) = (st, []) \<and> handle st (LeaveRoom s r) = (st, [])"
  by (simp add: join_room_unbound leave_room_unbound)

subsection \<open>The event loop and its invariants\<close>

lemma step_cases: "step st e = (st, []) \<or> step st e = handle st e"
  by (simp add: step_def split: option.splits)

lemma onlineUsers_send_message: "onlineUsers (fst (send_message st s d)) = onlineUsers st"
  by (simp add: send_message_def Let_def split: option.splits prod.splits)

lemma roomMember_send_message: "roomMember (db (fst (send_message st s d))) = roomMember (db st)"
  by (auto simp: send_message_def message_create_def Let_def split: option.splits prod.splits if_splits)


lemma keys_disconnect:
  "distinct (map fst (onlineUsers st)) \<Longrightarrow> distinct (map fst (onlineUsers (fst (disconnect st s))))"
  by (cases "bound_identity st s")
     (simp_all add: disconnect_unbound disconnect_bound socket_close_def sweep_distinct)

lemma disconnect_views:
  "rooms (fst (disconnect st s)) = (\<lambda>r. rooms st r - {s})"
  "connected (fst (disconnect st s)) = connected st - {s}"
  "db (fst (disconnect st s)) = db st"
  by (cases "bound_identity st s";
      simp add: disconnect_unbound disconnect_bound socket_close_def)+


lemma presence_disconnect_unbound:
  "bound_identity st s = None \<Longrightarrow> presence (fst (disconnect st s)) = presence st"
  by (simp add: disconnect_unbound socket_close_def presence_def fun_eq_iff)

lemma onlineUsers_video:
  "onlineUsers (fst (join_video_chat st s v)) = onlineUsers st"
  "onlineUsers (fst (leave_video_chat st s v)) = onlineUsers st"
  "onlineUsers (fst (video_offer st s g)) = onlineUsers st"
  "onlineUsers (fst (video_answer st s g)) = onlineUsers st"
  "onlineUsers (fst (ice_candidate st s g)) = onlineUsers st"
  "onlineUsers (fst (message_updated st s u)) = onlineUsers st"
  "onlineUsers (fst (message_deleted st s u)) = onlineUsers st"
  by (simp_all add: join_video_chat_def leave_video_chat_def video_offer_def video_answer_def
                    ice_candidate_def message_updated_def message_deleted_def
                    socket_join_def socket_leave_def)

lemma well_formed_handle: "well_formed st \<Longrightarrow> well_formed (fst (handle st e))"
  by (cases e)
     (simp_all add: well_formed_def identify_views keys_join_room keys_leave_room
                    onlineUsers_send_message keys_disconnect onlineUsers_video)

lemma well_formed_step: "well_formed st \<Longrightarrow> well_formed (fst (step st e))"
  using step_cases[of st e] by (auto simp: well_formed_handle)


lemma well_formed_init: "well_formed (init d)"
  by (simp add: well_formed_def init_def)

lemma roster_handle: "roster (db (fst (handle st e))) = roster (db st)"
  by (cases e)
     (auto simp: roster_def fun_eq_iff identify_def join_room_def leave_room_def Let_def
                 socket_join_def socket_leave_def roomMember_send_message disconnect_views
                 join_video_chat_def leave_video_chat_def video_offer_def video_answer_def
                 ice_candidate_def message_updated_def message_deleted_def
           split: option.splits)

lemma roster_step: "roster (db (fst (step st e))) = roster (db st)"
  using step_cases[of st e] by (auto simp: roster_handle)

lemma presence_handle_subset:
  assumes "well_formed st"
  shows "presence (fst (handle st e)) r \<subseteq>
           presence st r \<union> (case e of
               JoinRoom s r' \<Rightarrow> (case bound_identity st s of None \<Rightarrow> {}
                                  | Some uid \<Rightarrow> if r' = r then {uid} else {})
             | _ \<Rightarrow> {})"
proof (cases e)
  case (JoinRoom s r')
  then show ?thesis
    by (cases "bound_identity st s") (auto simp: join_room_unbound presence_join_room)
next
  case (LeaveRoom s r')
  then show ?thesis
    by (cases "bound_identity st s") (auto simp: leave_room_unbound presence_leave_room)
next
  case (Disconnect s)
  then show ?thesis
    using assms
    by (cases "bound_identity st s")
       (auto simp: presence_disconnect_unbound presence_disconnect well_formed_def)
qed (simp_all add: presence_def identify_views onlineUsers_send_message onlineUsers_video)

lemma presence_within_roster_step:
  assumes "well_formed st" "join_by_member st e" "\<forall>r. presence st r \<subseteq> roster (db st) r"
  shows "presence (fst (step st e)) r \<subseteq> roster (db (fst (step st e))) r"
proof (cases "step st e = (st, [])")
  case True
  with assms show ?thesis by simp
next
  case False
  then have runs: "step st e = handle st e"
    using step_cases[of st e] by simp
  have grows: "(case e of
               JoinRoom s r' \<Rightarrow> (case bound_identity st s of None \<Rightarrow> {}
                                  | Some uid \<Rightarrow> if r' = r then {uid} else {})
             | _ \<Rightarrow> {}) \<subseteq> roster (db st) r"
  proof (cases e)
    case (JoinRoom s r')
    have "s \<in> connected st"
      using False JoinRoom by (auto simp: step_def split: if_splits)
    with JoinRoom assms(2) show ?thesis
      by (auto simp: join_by_member_def split: option.splits)
  qed simp_all
  with presence_handle_subset[OF assms(1), of e r] assms(3) runs show ?thesis
    by (simp add: roster_handle) blast
qed

lemma presence_within_roster_run:
  "well_formed st \<Longrightarrow> joins_within_roster st es \<Longrightarrow> \<forall>r. presence st r \<subseteq> roster (db st) r
   \<Longrightarrow> presence (run st es) r \<subseteq> roster (db (run st es)) r"
proof (induction es arbitrary: st)
  case Nil
  then show ?case by simp
next
  case (Cons e es)
  have "\<forall>r. presence (fst (step st e)) r \<subseteq> roster (db (fst (step st e))) r"
    using presence_within_roster_step[of st e] Cons.prems by simp
  with Cons show ?case
    by (simp add: well_formed_step)
qed

lemma roster_run: "roster (db (run st es)) = roster (db st)"
  by (induction es arbitrary: st) (simp_all add: roster_step)

lemma sweep_untouched:
  assumes "well_formed st" "\<forall>r. uid \<notin> presence st r"
  shows "sweep uid (onlineUsers st) = (onlineUsers st, [])"
proof (rule sweep_absent, clarify)
  fix r users
  assume "(r, users) \<in> set (onlineUsers st)" "uid \<in> users"
  with assms(1) have "map_of (onlineUsers st) r = Some users"
    by (simp add: well_formed_def)
  with \<open>uid \<in> users\<close> have "uid \<in> presence st r"
    by (simp add: presence_def)
  with assms(2) show False by simp
qed

lemma sweep_emissions:
  "e \<in> set (snd (sweep uid al)) \<Longrightarrow>
   \<exists>r users. (r, users) \<in> set al \<and> uid \<in> users \<and> e = Emit (ToRoom r) ''user_offline'' (JStr uid)"
  by (induction al) (fastforce simp: Let_def split: prod.splits if_splits)+

lemma presence_member:
  "uid \<in> presence st r \<longleftrightarrow> (\<exists>users. map_of (onlineUsers st) r = Some users \<and> uid \<in> users)"
  by (cases "map_of (onlineUsers st) r") (simp_all add: presence_def)

lemma sweep_emission_list:
  "snd (sweep uid al) =
     map (\<lambda>r. Emit (ToRoom r) ''user_offline'' (JStr uid))
         (map fst (filter (\<lambda>entry. uid \<in> snd entry) al))"
  by (induction al) (auto simp: Let_def split: prod.splits)

lemma affected_rooms_entries:
  assumes "well_formed st"
  shows "affected_rooms st uid = map fst (filter (\<lambda>entry. uid \<in> snd entry) (onlineUsers st))"
proof -
  have d: "distinct (map fst (onlineUsers st))"
    using assms by (simp add: well_formed_def)
  have "(uid \<in> presence st (fst entry)) = (uid \<in> snd entry)"
    if "entry \<in> set (onlineUsers st)" for entry
  proof -
    from that have "(fst entry, snd entry) \<in> set (onlineUsers st)"
      by simp
    with d have "map_of (onlineUsers st) (fst entry) = Some (snd entry)"
      by (rule map_of_is_SomeI)
    then show ?thesis by (simp add: presence_def)
  qed
  then show ?thesis
    by (simp add: affected_rooms_def filter_map comp_def cong: filter_cong)
qed

lemma affected_rooms_set: "set (affected_rooms st uid) = {r. uid \<in> presence st r}"
proof -
  have "r \<in> set (map fst (onlineUsers st))" if "uid \<in> presence st r" for r
  proof -
    from that obtain users where "map_of (onlineUsers st) r = Some users"
      by (auto simp: presence_member)
    then show ?thesis
      by (metis map_of_SomeD image_eqI fst_conv set_map)
  qed
  then show ?thesis
    by (auto simp: affected_rooms_def)
qed

lemma affected_rooms_distinct: "well_formed st \<Longrightarrow> distinct (affected_rooms st uid)"
  by (simp add: affected_rooms_def well_formed_def)

lemma disconnect_emission_list:
  assumes "well_formed st" "bound_identity st s = Some uid"
  shows "snd (disconnect st s) =
           map (\<lambda>r. Emit (ToRoom r) ''user_offline'' (JStr uid)) (affected_rooms st uid)
           @ [Emit ToAll ''user_offline'' (JStr uid)]"
  using assms(2) by (simp add: disconnect_bound sweep_emission_list affected_rooms_entries[OF assms(1)])

lemma delivered_append: "delivered st c (xs @ ys) = delivered st c xs @ delivered st c ys"
  by (simp add: delivered_def)

lemma delivered_to_rooms:
  "delivered st c (map (\<lambda>r. Emit (ToRoom r) ev pl) rs) =
     map (\<lambda>r. Emit (ToRoom r) ev pl) (filter (\<lambda>r. c \<in> rooms st r) rs)"
  by (induction rs) (simp_all add: delivered_def)

lemma disconnect_deliveries:
  assumes "well_formed st" "bound_identity st s = Some uid"
  shows "delivered (fst (disconnect st s)) c (snd (disconnect st s)) =
           map (\<lambda>r. Emit (ToRoom r) ''user_offline'' (JStr uid))
               (filter (\<lambda>r. c \<in> rooms st r \<and> c \<noteq> s) (affected_rooms st uid))
           @ (if c \<in> connected st \<and> c \<noteq> s then [Emit ToAll ''user_offline'' (JStr uid)] else [])"
proof -
  have g: "delivered (fst (disconnect st s)) c [Emit ToAll ''user_offline'' (JStr uid)] =
             (if c \<in> connected st \<and> c \<noteq> s then [Emit ToAll ''user_offline'' (JStr uid)] else [])"
    by (simp add: delivered_def disconnect_views)
  show ?thesis
    unfolding disconnect_emission_list[OF assms] delivered_append delivered_to_rooms g
    by (simp add: disconnect_views)
qed



























lemmas eval_defs =
  init_def step_def identify_def join_room_def leave_room_def disconnect_def socket_close_def
  bound_identity_def socket_join_def socket_leave_def presence_def roomMember_findMany_def
  demo_db_def Let_def

text \<open>The example states are states the server reaches.\<close>

lemma chat_rooms_reachable:
  "run (init demo_db)
     [Connect ''s1'', Connect ''s2'', Connect ''s3'',
      Identify ''s1'' ''u1'', Identify ''s2'' ''u2'', Identify ''s3'' ''u3'',
      JoinRoom ''s1'' ''r1'', JoinRoom ''s2'' ''r1'', JoinRoom ''s3'' ''r2''] = chat_rooms"
  by (auto simp: chat_rooms_def eval_defs fun_eq_iff)

lemma shared_rooms_reachable:
  "run (init demo_db)
     [Connect ''s1'', Connect ''s2'', Identify ''s1'' ''u1'', Identify ''s2'' ''u2'',
      JoinRoom ''s1'' ''r1'', JoinRoom ''s2'' ''r1'', JoinRoom ''s1'' ''r2'',
      JoinRoom ''s2'' ''r2''] = shared_rooms"
  by (auto simp: shared_rooms_def eval_defs fun_eq_iff)

lemma call_room_reachable:
  "run (init demo_db)
     [Connect ''s1'', Connect ''s2'', Connect ''s3'',
      Identify ''s1'' ''u1'', Identify ''s2'' ''u2'', Identify ''s3'' ''u3'',
      JoinVideoChat ''s1'' \<lparr> vd_roomId = ''r1'', vd_userId = ''u1'', vd_isAudioOnly = Some False \<rparr>,
      JoinVideoChat ''s2'' \<lparr> vd_roomId = ''r1'', vd_userId = ''u2'', vd_isAudioOnly = Some False \<rparr>,
      JoinVideoChat ''s3'' \<lparr> vd_roomId = ''r1'', vd_userId = ''u3'', vd_isAudioOnly = Some False \<rparr>]
     = call_room"
  by (auto simp: call_room_def eval_defs join_video_chat_def video_room_def fun_eq_iff)

section \<open>Claims\<close>

text \<open>
  C1, as stated, fails: join-room does not consult the durable roster. With a roster of
  room r1 that holds u1 only, a connection identified as u2 joins r1 and u2 is in the
  presence set of r1.
\<close>

theorem presence_outside_roster:
  "presence (run (init demo_db) [Connect ''s2'', Identify ''s2'' ''u2'', JoinRoom ''s2'' ''r1'']) ''r1''
     = {''u2''}
   \<and> roster (db (run (init demo_db) [Connect ''s2'', Identify ''s2'' ''u2'', JoinRoom ''s2'' ''r1''])) ''r1''
     = {''u1''}
   \<and> \<not> presence (run (init demo_db) [Connect ''s2'', Identify ''s2'' ''u2'', JoinRoom ''s2'' ''r1'']) ''r1''
       \<subseteq> roster (db (run (init demo_db) [Connect ''s2'', Identify ''s2'' ''u2'', JoinRoom ''s2'' ''r1''])) ''r1''"
  by (simp add: init_def step_def identify_def join_room_def bound_identity_def socket_join_def
                presence_def roster_def roomMember_findMany_def demo_db_def Let_def)

text \<open>
  C1, amended. After every finite sequence of events from the initial state in which each
  join-room that takes effect is issued under an identity of that room's durable roster,
  every identity in a room's presence set is in that room's roster; none of the events
  changes the roster.
\<close>

theorem presence_within_roster:
  assumes "joins_within_roster (init d) es"
  shows "presence (run (init d) es) r \<subseteq> roster (db (run (init d) es)) r
       \<and> roster (db (run (init d) es)) r = roster d r"
proof -
  have "\<forall>r. presence (init d) r \<subseteq> roster (db (init d)) r"
    by (simp add: presence_def init_def)
  with assms have "presence (run (init d) es) r \<subseteq> roster (db (run (init d) es)) r"
    by (intro presence_within_roster_run well_formed_init)
  moreover have "roster (db (run (init d) es)) r = roster d r"
    by (simp add: roster_run init_def)
  ultimately show ?thesis by simp
qed

theorem presence_within_roster_witness:
  "joins_within_roster (init demo_db)
     [Connect ''s1'', Identify ''s1'' ''u1'', JoinRoom ''s1'' ''r1'', LeaveRoom ''s1'' ''r1'',
      JoinRoom ''s1'' ''r1'']
   \<and> presence (run (init demo_db)
        [Connect ''s1'', Identify ''s1'' ''u1'', JoinRoom ''s1'' ''r1'', LeaveRoom ''s1'' ''r1'',
         JoinRoom ''s1'' ''r1'']) ''r1'' = {''u1''}
   \<and> roster demo_db ''r1'' = {''u1''}"
proof -
  have j: "joins_within_roster (init demo_db)
     [Connect ''s1'', Identify ''s1'' ''u1'', JoinRoom ''s1'' ''r1'', LeaveRoom ''s1'' ''r1'',
      JoinRoom ''s1'' ''r1'']"
    by (simp add: join_by_member_def init_def step_def identify_def join_room_def leave_room_def
                  bound_identity_def socket_join_def socket_leave_def roster_def
                  roomMember_findMany_def demo_db_def Let_def)
  have p: "presence (run (init demo_db)
        [Connect ''s1'', Identify ''s1'' ''u1'', JoinRoom ''s1'' ''r1'', LeaveRoom ''s1'' ''r1'',
         JoinRoom ''s1'' ''r1'']) ''r1'' = {''u1''}"
    by (simp add: init_def step_def identify_def join_room_def leave_room_def
                  bound_identity_def socket_join_def socket_leave_def presence_def
                  roomMember_findMany_def demo_db_def Let_def)
  have r: "roster demo_db ''r1'' = {''u1''}"
    by (simp add: roster_def demo_db_def)
  from presence_within_roster[OF j, of "''r1''"] j p r show ?thesis by simp
qed




text \<open>
  C3. Sending a message persists it first. When the storage accepts it, the record it
  returns, with the id and the timestamp the storage assigned, is appended to the stored
  messages and is broadcast once as \<open>new-message\<close>; a connection receives it exactly when
  it is joined to the message's room, the sender's own connection included, and no
  connection outside that room does. When the storage rejects, nothing is stored, the only
  emission is an \<open>error\<close> event and only the submitting connection receives it.
\<close>

theorem send_message_persist_then_broadcast:
  "(available (db st) \<longrightarrow>
      (\<exists>m. send_message st s d =
              (st\<lparr> db := (db st)\<lparr> messages := messages (db st) @ [m] \<rparr> \<rparr>,
               [Emit (ToRoom (sd_roomId d)) ''new-message'' (message_json m)])
          \<and> m_id m = length (messages (db st)) \<and> m_createdAt m = now (db st)
          \<and> m_content m = sd_message d \<and> m_roomId m = sd_roomId d \<and> m_userId m = sd_userId d)
      \<and> (\<forall>c. delivered (fst (send_message st s d)) c (snd (send_message st s d)) =
               (if c \<in> rooms st (sd_roomId d) then snd (send_message st s d) else [])))
   \<and> (\<not> available (db st) \<longrightarrow>
        send_message st s d =
          (st, [Emit (ToSocket s) ''error'' (JObj [(''message'', JStr ''Failed to save message'')])])
        \<and> (\<forall>c. delivered (fst (send_message st s d)) c (snd (send_message st s d)) =
               (if c = s then snd (send_message st s d) else [])))"
  by (auto simp: send_message_def message_create_def Let_def delivered_def)

theorem send_message_persist_then_broadcast_witness:
  "available (db chat_rooms)
   \<and> snd (send_message chat_rooms ''s1'' hello)
       = [Emit (ToRoom ''r1'') ''new-message'' (message_json hello_row)]
   \<and> messages (db (fst (send_message chat_rooms ''s1'' hello))) = [hello_row]
   \<and> delivered (fst (send_message chat_rooms ''s1'' hello)) ''s1''
        (snd (send_message chat_rooms ''s1'' hello))
       = [Emit (ToRoom ''r1'') ''new-message'' (message_json hello_row)]
   \<and> delivered (fst (send_message chat_rooms ''s1'' hello)) ''s2''
        (snd (send_message chat_rooms ''s1'' hello))
       = [Emit (ToRoom ''r1'') ''new-message'' (message_json hello_row)]
   \<and> delivered (fst (send_message chat_rooms ''s1'' hello)) ''s3''
        (snd (send_message chat_rooms ''s1'' hello)) = []
   \<and> \<not> available (db (chat_rooms\<lparr> db := demo_db\<lparr> available := False \<rparr> \<rparr>))
   \<and> delivered (fst (send_message (chat_rooms\<lparr> db := demo_db\<lparr> available := False \<rparr> \<rparr>) ''s1'' hello))
        ''s2'' (snd (send_message (chat_rooms\<lparr> db := demo_db\<lparr> available := False \<rparr> \<rparr>) ''s1'' hello))
       = []"
proof -
  let ?down = "chat_rooms\<lparr> db := demo_db\<lparr> available := False \<rparr> \<rparr>"
  have a: "available (db chat_rooms)"
    by (simp add: chat_rooms_def demo_db_def)
  have e: "send_message chat_rooms ''s1'' hello =
       (chat_rooms\<lparr> db := demo_db\<lparr> messages := [hello_row] \<rparr> \<rparr>,
        [Emit (ToRoom ''r1'') ''new-message'' (message_json hello_row)])"
    by (simp add: send_message_def message_create_def chat_rooms_def demo_db_def hello_def
                  hello_row_def Let_def)
  have r: "rooms chat_rooms (sd_roomId hello) = {''s1'', ''s2''}"
    by (simp add: chat_rooms_def hello_def)
  have n: "\<not> available (db ?down)"
    by simp
  note ok = send_message_persist_then_broadcast[of chat_rooms "''s1''" hello,
              THEN conjunct1, THEN mp, OF a, THEN conjunct2]
  note ko = send_message_persist_then_broadcast[of ?down "''s1''" hello,
              THEN conjunct2, THEN mp, OF n, THEN conjunct2]
  have d1: "delivered (fst (send_message chat_rooms ''s1'' hello)) ''s1''
              (snd (send_message chat_rooms ''s1'' hello))
            = [Emit (ToRoom ''r1'') ''new-message'' (message_json hello_row)]"
    using ok[THEN spec, of "''s1''"] r e by simp
  have d2: "delivered (fst (send_message chat_rooms ''s1'' hello)) ''s2''
              (snd (send_message chat_rooms ''s1'' hello))
            = [Emit (ToRoom ''r1'') ''new-message'' (message_json hello_row)]"
    using ok[THEN spec, of "''s2''"] r e by simp
  have d3: "delivered (fst (send_message chat_rooms ''s1'' hello)) ''s3''
              (snd (send_message chat_rooms ''s1'' hello)) = []"
    using ok[THEN spec, of "''s3''"] r by simp
  have d4: "delivered (fst (send_message ?down ''s1'' hello)) ''s2''
              (snd (send_message ?down ''s1'' hello)) = []"
    using ko[THEN spec, of "''s2''"] by simp
  from a e n d1 d2 d3 d4 show ?thesis by simp
qed

text \<open>
  C4. The claim asks that a relayed signalling message carry the intended recipient and
  that receivers discard what is not addressed to them. With three participants in the
  call of room r1, the offer that u1 addresses to u2 is relayed without the
  \<open>targetUserId\<close> field, is delivered to the bystander u3 and to the sender as well, and
  the bystander's client, having nothing to check, opens a peer link for u1 and answers.
\<close>

theorem relay_offer_reaches_bystander:
  "step call_room (VideoOffer ''s1'' offer_to_u2) = (call_room, [relayed_offer])
   \<and> sg_targetUserId offer_to_u2 = ''u2''
   \<and> has_field (em_payload relayed_offer) ''targetUserId'' = False
   \<and> delivered call_room ''s3'' [relayed_offer] = [relayed_offer]
   \<and> delivered call_room ''s1'' [relayed_offer] = [relayed_offer]
   \<and> client_receive permissive bystander (em_event relayed_offer) (em_payload relayed_offer)
       = Some (bystander\<lparr> peers := [(''u1'', answered_link)] \<rparr>,
               [EmitVideoAnswer \<lparr> sg_roomId = ''r1'', sg_userId = ''u3'',
                                  sg_targetUserId = ''u1'', sg_payload = JStr ''sdp-answer'' \<rparr>],
               Done)"
  by (simp add: step_def call_room_def offer_to_u2_def relayed_offer_def video_offer_def
                video_room_def has_field_def delivered_def client_receive_def
                on_video_offer_def createPeerConnection_def setPeer_def permissive_def
                bystander_def answered_link_def Let_def)

text \<open>
  C5, as stated, fails: besides one \<open>user_offline\<close> to each affected room, the disconnect
  handler emits one more \<open>user_offline\<close> to every live connection. When s1 (u1, in room
  r1) disconnects, the connection s2 joined to r1 is delivered two offline notifications
  for u1, and s3, which shares no room with u1, is delivered one.
\<close>

theorem disconnect_notifies_room_twice:
  "step chat_rooms (Disconnect ''s1'') =
     (chat_rooms\<lparr> onlineUsers := [(''r1'', {''u2''}), (''r2'', {''u3''})],
                  userSockets := [''s2'' \<mapsto> ''u2'', ''s3'' \<mapsto> ''u3''],
                  rooms := (\<lambda>r. if r = ''r1'' then {''s2''} else if r = ''r2'' then {''s3''} else {}),
                  connected := {''s2'', ''s3''} \<rparr>,
      [Emit (ToRoom ''r1'') ''user_offline'' (JStr ''u1''),
       Emit ToAll ''user_offline'' (JStr ''u1'')])
   \<and> delivered (fst (step chat_rooms (Disconnect ''s1''))) ''s2''
        (snd (step chat_rooms (Disconnect ''s1'')))
     = [Emit (ToRoom ''r1'') ''user_offline'' (JStr ''u1''),
        Emit ToAll ''user_offline'' (JStr ''u1'')]
   \<and> delivered (fst (step chat_rooms (Disconnect ''s1''))) ''s3''
        (snd (step chat_rooms (Disconnect ''s1'')))
     = [Emit ToAll ''user_offline'' (JStr ''u1'')]"
proof -
  have e: "step chat_rooms (Disconnect ''s1'') =
     (chat_rooms\<lparr> onlineUsers := [(''r1'', {''u2''}), (''r2'', {''u3''})],
                  userSockets := [''s2'' \<mapsto> ''u2'', ''s3'' \<mapsto> ''u3''],
                  rooms := (\<lambda>r. if r = ''r1'' then {''s2''} else if r = ''r2'' then {''s3''} else {}),
                  connected := {''s2'', ''s3''} \<rparr>,
      [Emit (ToRoom ''r1'') ''user_offline'' (JStr ''u1''),
       Emit ToAll ''user_offline'' (JStr ''u1'')])"
    by (auto simp: step_def chat_rooms_def disconnect_def socket_close_def bound_identity_def
                   Let_def fun_eq_iff)
  show ?thesis
    unfolding e by (simp add: delivered_def)
qed

text \<open>
  C5, amended. Disconnecting a connection bound to identity X removes X from every
  presence set and releases the binding. The emissions are, in this order: one room-scoped
  \<open>user_offline\<close> for X to each room whose presence set held X, each such room once and
  in the order of the presence map, and then one \<open>user_offline\<close> for X to all live
  connections. A connection other than the closed one is delivered the room-scoped
  notification of every affected room it is joined to and, being live, the global one
  after them; the closed connection is delivered nothing. When X was in no presence set,
  the presence map is unchanged and the global notification is the only emission.
\<close>

theorem disconnect_offline_notifications:
  assumes "well_formed st" and "bound_identity st s = Some uid"
  shows "(\<forall>r. presence (fst (disconnect st s)) r = presence st r - {uid})
       \<and> (\<forall>r. count_list (snd (disconnect st s)) (Emit (ToRoom r) ''user_offline'' (JStr uid))
               = (if uid \<in> presence st r then 1 else 0))
       \<and> count_list (snd (disconnect st s)) (Emit ToAll ''user_offline'' (JStr uid)) = 1
       \<and> (\<forall>e \<in> set (snd (disconnect st s)).
             e = Emit ToAll ''user_offline'' (JStr uid)
           \<or> (\<exists>r. uid \<in> presence st r \<and> e = Emit (ToRoom r) ''user_offline'' (JStr uid)))
       \<and> ((\<forall>r. uid \<notin> presence st r) \<longrightarrow>
             onlineUsers (fst (disconnect st s)) = onlineUsers st
           \<and> snd (disconnect st s) = [Emit ToAll ''user_offline'' (JStr uid)])
       \<and> userSockets (fst (disconnect st s)) s = None
       \<and> snd (disconnect st s) =
           map (\<lambda>r. Emit (ToRoom r) ''user_offline'' (JStr uid)) (affected_rooms st uid)
           @ [Emit ToAll ''user_offline'' (JStr uid)]
       \<and> distinct (affected_rooms st uid)
       \<and> set (affected_rooms st uid) = {r. uid \<in> presence st r}
       \<and> (\<forall>c. delivered (fst (disconnect st s)) c (snd (disconnect st s)) =
               map (\<lambda>r. Emit (ToRoom r) ''user_offline'' (JStr uid))
                   (filter (\<lambda>r. c \<in> rooms st r \<and> c \<noteq> s) (affected_rooms st uid))
               @ (if c \<in> connected st \<and> c \<noteq> s
                  then [Emit ToAll ''user_offline'' (JStr uid)] else []))"
proof -
  have d: "distinct (map fst (onlineUsers st))"
    using assms(1) by (simp add: well_formed_def)
  have p: "\<forall>r. presence (fst (disconnect st s)) r = presence st r - {uid}"
    using assms(2) d by (simp add: presence_disconnect)
  have c: "\<forall>r. count_list (snd (disconnect st s)) (Emit (ToRoom r) ''user_offline'' (JStr uid))
               = (if uid \<in> presence st r then 1 else 0)"
    using assms(2) d
    by (simp add: disconnect_bound sweep_count presence_member)
  have g: "count_list (snd (disconnect st s)) (Emit ToAll ''user_offline'' (JStr uid)) = 1"
    using assms(2) d by (simp add: disconnect_bound sweep_count)
  have m: "\<forall>e \<in> set (snd (disconnect st s)).
             e = Emit ToAll ''user_offline'' (JStr uid)
           \<or> (\<exists>r. uid \<in> presence st r \<and> e = Emit (ToRoom r) ''user_offline'' (JStr uid))"
  proof
    fix e assume "e \<in> set (snd (disconnect st s))"
    then consider "e = Emit ToAll ''user_offline'' (JStr uid)"
      | "e \<in> set (snd (sweep uid (onlineUsers st)))"
      using assms(2) by (auto simp: disconnect_bound)
    then show "e = Emit ToAll ''user_offline'' (JStr uid)
           \<or> (\<exists>r. uid \<in> presence st r \<and> e = Emit (ToRoom r) ''user_offline'' (JStr uid))"
    proof cases
      case 1
      then show ?thesis by simp
    next
      case 2
      then obtain r users where ru: "(r, users) \<in> set (onlineUsers st)" "uid \<in> users"
          "e = Emit (ToRoom r) ''user_offline'' (JStr uid)"
        using sweep_emissions by blast
      with d have "uid \<in> presence st r"
        by (simp add: presence_def)
      with ru show ?thesis by blast
    qed
  qed
  have u: "(\<forall>r. uid \<notin> presence st r) \<longrightarrow>
             onlineUsers (fst (disconnect st s)) = onlineUsers st
           \<and> snd (disconnect st s) = [Emit ToAll ''user_offline'' (JStr uid)]"
    using assms by (simp add: disconnect_bound sweep_untouched)
  have b: "userSockets (fst (disconnect st s)) s = None"
    using assms(2) by (simp add: disconnect_bound)
  note l = disconnect_emission_list[OF assms]
  note a1 = affected_rooms_distinct[OF assms(1), of uid]
  note a2 = affected_rooms_set[of st uid]
  have v: "\<forall>c. delivered (fst (disconnect st s)) c (snd (disconnect st s)) =
               map (\<lambda>r. Emit (ToRoom r) ''user_offline'' (JStr uid))
                   (filter (\<lambda>r. c \<in> rooms st r \<and> c \<noteq> s) (affected_rooms st uid))
               @ (if c \<in> connected st \<and> c \<noteq> s
                  then [Emit ToAll ''user_offline'' (JStr uid)] else [])"
    using disconnect_deliveries[OF assms] by blast
  show ?thesis
    by (intro conjI) (rule p c g m u b l a1 a2 v)+
qed

theorem disconnect_offline_notifications_witness:
  "well_formed chat_rooms \<and> bound_identity chat_rooms ''s1'' = Some ''u1''
   \<and> presence chat_rooms ''r1'' = {''u1'', ''u2''}
   \<and> presence (fst (disconnect chat_rooms ''s1'')) ''r1'' = {''u2''}
   \<and> count_list (snd (disconnect chat_rooms ''s1'')) (Emit (ToRoom ''r1'') ''user_offline'' (JStr ''u1'')) = 1
   \<and> count_list (snd (disconnect chat_rooms ''s1'')) (Emit (ToRoom ''r2'') ''user_offline'' (JStr ''u1'')) = 0
   \<and> count_list (snd (disconnect chat_rooms ''s1'')) (Emit ToAll ''user_offline'' (JStr ''u1'')) = 1
   \<and> well_formed shared_rooms \<and> bound_identity shared_rooms ''s1'' = Some ''u1''
   \<and> affected_rooms shared_rooms ''u1'' = [''r1'', ''r2'']
   \<and> snd (disconnect shared_rooms ''s1'') =
       [Emit (ToRoom ''r1'') ''user_offline'' (JStr ''u1''),
        Emit (ToRoom ''r2'') ''user_offline'' (JStr ''u1''),
        Emit ToAll ''user_offline'' (JStr ''u1'')]
   \<and> delivered (fst (disconnect shared_rooms ''s1'')) ''s2'' (snd (disconnect shared_rooms ''s1'')) =
       [Emit (ToRoom ''r1'') ''user_offline'' (JStr ''u1''),
        Emit (ToRoom ''r2'') ''user_offline'' (JStr ''u1''),
        Emit ToAll ''user_offline'' (JStr ''u1'')]
   \<and> delivered (fst (disconnect shared_rooms ''s1'')) ''s1'' (snd (disconnect shared_rooms ''s1'')) = []"
proof -
  have w: "well_formed chat_rooms"
    by (simp add: well_formed_def chat_rooms_def)
  have b: "bound_identity chat_rooms ''s1'' = Some ''u1''"
    by (simp add: bound_identity_def chat_rooms_def)
  have p1: "presence chat_rooms ''r1'' = {''u1'', ''u2''}"
    by (simp add: presence_def chat_rooms_def)
  have p2: "presence chat_rooms ''r2'' = {''u3''}"
    by (simp add: presence_def chat_rooms_def)
  note t = disconnect_offline_notifications[OF w b]
  have a: "presence (fst (disconnect chat_rooms ''s1'')) ''r1'' = {''u2''}"
    using t[THEN conjunct1, THEN spec, of "''r1''"] p1 by auto
  have c1: "count_list (snd (disconnect chat_rooms ''s1'')) (Emit (ToRoom ''r1'') ''user_offline'' (JStr ''u1'')) = 1"
    using t[THEN conjunct2, THEN conjunct1, THEN spec, of "''r1''"] p1 by simp
  have c2: "count_list (snd (disconnect chat_rooms ''s1'')) (Emit (ToRoom ''r2'') ''user_offline'' (JStr ''u1'')) = 0"
    using t[THEN conjunct2, THEN conjunct1, THEN spec, of "''r2''"] p2 by simp
  have g: "count_list (snd (disconnect chat_rooms ''s1'')) (Emit ToAll ''user_offline'' (JStr ''u1'')) = 1"
    using t[THEN conjunct2, THEN conjunct2, THEN conjunct1] .
  have w': "well_formed shared_rooms"
    by (simp add: well_formed_def shared_rooms_def)
  have b': "bound_identity shared_rooms ''s1'' = Some ''u1''"
    by (simp add: bound_identity_def shared_rooms_def)
  have f: "affected_rooms shared_rooms ''u1'' = [''r1'', ''r2'']"
    by (simp add: affected_rooms_def presence_def shared_rooms_def)
  have r: "rooms shared_rooms ''r1'' = {''s1'', ''s2''}" "rooms shared_rooms ''r2'' = {''s1'', ''s2''}"
    "connected shared_rooms = {''s1'', ''s2''}"
    by (simp_all add: shared_rooms_def)
  note t' = disconnect_offline_notifications[OF w' b', THEN conjunct2, THEN conjunct2,
              THEN conjunct2, THEN conjunct2, THEN conjunct2, THEN conjunct2]
  have e: "snd (disconnect shared_rooms ''s1'') =
       [Emit (ToRoom ''r1'') ''user_offline'' (JStr ''u1''),
        Emit (ToRoom ''r2'') ''user_offline'' (JStr ''u1''),
        Emit ToAll ''user_offline'' (JStr ''u1'')]"
    using t'[THEN conjunct1] f by simp
  note dl = t'[THEN conjunct2, THEN conjunct2, THEN conjunct2]
  have d2: "delivered (fst (disconnect shared_rooms ''s1'')) ''s2'' (snd (disconnect shared_rooms ''s1'')) =
       [Emit (ToRoom ''r1'') ''user_offline'' (JStr ''u1''),
        Emit (ToRoom ''r2'') ''user_offline'' (JStr ''u1''),
        Emit ToAll ''user_offline'' (JStr ''u1'')]"
    using dl[THEN spec, of "''s2''"] f r by simp
  have d1: "delivered (fst (disconnect shared_rooms ''s1'')) ''s1'' (snd (disconnect shared_rooms ''s1'')) = []"
    using dl[THEN spec, of "''s1''"] f r by simp
  from w b p1 a c1 c2 g w' b' f e d2 d1 show ?thesis by simp
qed

text \<open>
  C6, as stated, fails: with the camera refused and the microphone granted, the client
  does send \<open>isAudioOnly = true\<close> in its join-video-chat payload, but the server's
  \<open>user-joined-video\<close> notification carries the \<open>userId\<close> alone and is the same whatever the
  flag was, so the remote participants are not told.
\<close>

theorem audio_only_flag_not_forwarded:
  "snd (initializeMediaStream microphone_only caller) = [EmitJoinVideoChat audio_only_join]
   \<and> snd (step call_room (to_event ''s1'' (EmitJoinVideoChat audio_only_join)))
       = [Emit (ToRoomExcept ''video-r1'' ''s1'') ''user-joined-video''
            (JObj [(''userId'', JStr ''u1'')])]
   \<and> snd (step call_room (JoinVideoChat ''s1'' (audio_only_join\<lparr> vd_isAudioOnly := Some False \<rparr>)))
       = snd (step call_room (JoinVideoChat ''s1'' audio_only_join))
   \<and> has_field (JObj [(''userId'', JStr ''u1'')]) ''isAudioOnly'' = False
   \<and> has_field (JObj [(''userId'', JStr ''u1'')]) ''audioOnly'' = False"
  by (simp add: initializeMediaStream_def checkMediaDevices_def microphone_only_def caller_def
                audio_only_join_def step_def call_room_def join_video_chat_def video_room_def
                has_field_def Let_def)

text \<open>
  C6, amended. When the camera cannot be acquired but the microphone can, and the
  audio-only stream is then acquired, the session enters audio-only mode, shows the
  audio-only placeholder for the local participant, and sends a join-video-chat payload
  with \<open>isAudioOnly = true\<close>. The server forwards only the joining identity. A remote
  participant renders the audio-only placeholder for a received stream exactly when that
  stream has no video track.
\<close>

theorem audio_only_fallback:
  assumes "gum \<lparr> c_audio = AudioTrue, c_video = VideoAbsent \<rparr> = Inr a"
      and "gum \<lparr> c_audio = AudioAbsent, c_video = VideoTrue \<rparr> = Inl videoErr"
      and "gum \<lparr> c_audio = AudioProcessing, c_video = VideoFalse \<rparr> = Inr stream"
  shows "initializeMediaStream gum c =
           (c\<lparr> isAudioOnly := True, localStream := Some stream, error := None \<rparr>,
            [EmitJoinVideoChat \<lparr> vd_roomId = cl_roomId c, vd_userId = cl_userId c,
                                 vd_isAudioOnly = Some True \<rparr>])
       \<and> local_tile (fst (initializeMediaStream gum c)) = AudioOnlyPlaceholder
       \<and> join_video_chat st s \<lparr> vd_roomId = cl_roomId c, vd_userId = cl_userId c,
                                vd_isAudioOnly = Some True \<rparr> =
           (socket_join st s (video_room (cl_roomId c)),
            [Emit (ToRoomExcept (video_room (cl_roomId c)) s) ''user-joined-video''
               (JObj [(''userId'', JStr (cl_userId c))])])
       \<and> (remote_tile remote = AudioOnlyPlaceholder \<longleftrightarrow> video_tracks remote = 0)"
  using assms
  by (simp add: initializeMediaStream_def checkMediaDevices_def local_tile_def
                join_video_chat_def remote_tile_def Let_def)

theorem audio_only_fallback_witness:
  "microphone_only \<lparr> c_audio = AudioTrue, c_video = VideoAbsent \<rparr>
     = Inr \<lparr> audio_tracks = 1, video_tracks = 0 \<rparr>
   \<and> microphone_only \<lparr> c_audio = AudioAbsent, c_video = VideoTrue \<rparr>
     = Inl (ErrorObj ''NotAllowedError'' ''Permission denied'')
   \<and> microphone_only \<lparr> c_audio = AudioProcessing, c_video = VideoFalse \<rparr>
     = Inr \<lparr> audio_tracks = 1, video_tracks = 0 \<rparr>
   \<and> isAudioOnly (fst (initializeMediaStream microphone_only caller))
   \<and> snd (initializeMediaStream microphone_only caller) = [EmitJoinVideoChat audio_only_join]
   \<and> remote_tile \<lparr> audio_tracks = 1, video_tracks = 0 \<rparr> = AudioOnlyPlaceholder"
proof -
  have a: "microphone_only \<lparr> c_audio = AudioTrue, c_video = VideoAbsent \<rparr>
             = Inr \<lparr> audio_tracks = 1, video_tracks = 0 \<rparr>"
    by (simp add: microphone_only_def)
  have v: "microphone_only \<lparr> c_audio = AudioAbsent, c_video = VideoTrue \<rparr>
             = Inl (ErrorObj ''NotAllowedError'' ''Permission denied'')"
    by (simp add: microphone_only_def)
  have f: "microphone_only \<lparr> c_audio = AudioProcessing, c_video = VideoFalse \<rparr>
             = Inr \<lparr> audio_tracks = 1, video_tracks = 0 \<rparr>"
    by (simp add: microphone_only_def)
  from audio_only_fallback[OF a v f, of caller call_room "''s1''" "\<lparr> audio_tracks = 1, video_tracks = 0 \<rparr>"]
       a v f
  show ?thesis by (simp add: caller_def audio_only_join_def)
qed

text \<open>
  C7. The claim asks that join-room, leave-room and send-message be ignored on a connection
  that has not identified. The join-room and leave-room handlers return before any effect
  (in general, lemma \<open>room_operations_before_identify\<close>); the send-message handler has no
  such guard. On a fresh connection that never identified, join-room and leave-room change
  nothing and emit nothing, while a send-message is stored and broadcast to the room.
\<close>

theorem send_message_before_identify:
  "bound_identity (run (init demo_db) [Connect ''s1'']) ''s1'' = None
   \<and> step (run (init demo_db) [Connect ''s1'']) (JoinRoom ''s1'' ''r1'') =
       (run (init demo_db) [Connect ''s1''], [])
   \<and> step (run (init demo_db) [Connect ''s1'']) (LeaveRoom ''s1'' ''r1'') =
       (run (init demo_db) [Connect ''s1''], [])
   \<and> step (run (init demo_db) [Connect ''s1'']) (SendMessage ''s1'' hello) =
       ((run (init demo_db) [Connect ''s1''])\<lparr> db := demo_db\<lparr> messages := [hello_row] \<rparr> \<rparr>,
        [Emit (ToRoom ''r1'') ''new-message'' (message_json hello_row)])"
  by (simp add: step_def init_def bound_identity_def join_room_def leave_room_def
                send_message_def message_create_def demo_db_def hello_def hello_row_def Let_def)

text \<open>
  C8. Two consecutive joins of the same room under the same identity, from the same
  connection or from two connections bound to that identity, leave the presence map as the
  first join left it: the room's presence set is the same and its size has not grown.
\<close>

theorem join_room_twice:
  assumes "bound_identity st s1 = bound_identity st s2"
  shows "onlineUsers (fst (join_room (fst (join_room st s1 r)) s2 r))
           = onlineUsers (fst (join_room st s1 r))
       \<and> presence (fst (join_room (fst (join_room st s1 r)) s2 r)) r
           = presence (fst (join_room st s1 r)) r
       \<and> card (presence (fst (join_room (fst (join_room st s1 r)) s2 r)) r)
           = card (presence (fst (join_room st s1 r)) r)"
proof -
  let ?st1 = "fst (join_room st s1 r)"
  let ?st2 = "fst (join_room ?st1 s2 r)"
  have ou: "onlineUsers ?st2 = onlineUsers ?st1"
  proof (cases "bound_identity st s1")
    case None
    with assms show ?thesis
      by (simp add: join_room_unbound)
  next
    case (Some uid)
    have "userSockets ?st1 = userSockets st"
      using Some by (rule join_room_views)
    then have "bound_identity ?st1 = bound_identity st"
      by (rule bound_identity_cong)
    with Some assms have b2: "bound_identity ?st1 s2 = Some uid"
      by simp
    have p: "presence ?st1 r = insert uid (presence st r)"
      using Some by (simp add: presence_join_room)
    show ?thesis
      using p by (simp add: onlineUsers_join_room[OF b2] onlineUsers_join_room[OF Some])
  qed
  then have "presence ?st2 r = presence ?st1 r"
    by (simp add: presence_def)
  with ou show ?thesis by simp
qed

theorem join_room_twice_witness:
  "bound_identity two_tabs ''s1'' = bound_identity two_tabs ''s2''
   \<and> presence (fst (join_room two_tabs ''s1'' ''r1'')) ''r1'' = {''u1''}
   \<and> presence (fst (join_room (fst (join_room two_tabs ''s1'' ''r1'')) ''s2'' ''r1'')) ''r1''
       = {''u1''}"
proof -
  have b: "bound_identity two_tabs ''s1'' = bound_identity two_tabs ''s2''"
    by (simp add: bound_identity_def two_tabs_def)
  have p: "presence (fst (join_room two_tabs ''s1'' ''r1'')) ''r1'' = {''u1''}"
    by (simp add: join_room_def bound_identity_def two_tabs_def socket_join_def presence_def
                  roomMember_findMany_def demo_db_def Let_def)
  from join_room_twice[OF b, of "''r1''"] b p show ?thesis by simp
qed



text \<open>
  C10. The relay of an offer, an answer and an ICE candidate leaves the state as it is and
  emits one event to the call channel of the room. Its payload has exactly the sender's
  \<open>userId\<close> and the signalling payload; the \<open>targetUserId\<close> the sender supplied is not in
  it. The recipients are all the connections joined to the call channel, so a sender that
  is in the channel is delivered its own message.
\<close>

theorem relay_drops_target:
  "video_offer st s d =
     (st, [Emit (ToRoom (video_room (sg_roomId d))) ''video-offer''
             (JObj [(''userId'', JStr (sg_userId d)), (''offer'', sg_payload d)])])
   \<and> video_answer st s d =
     (st, [Emit (ToRoom (video_room (sg_roomId d))) ''video-answer''
             (JObj [(''userId'', JStr (sg_userId d)), (''answer'', sg_payload d)])])
   \<and> ice_candidate st s d =
     (st, [Emit (ToRoom (video_room (sg_roomId d))) ''ice-candidate''
             (JObj [(''userId'', JStr (sg_userId d)), (''candidate'', sg_payload d)])])
   \<and> (\<forall>e \<in> set (snd (video_offer st s d) @ snd (video_answer st s d) @ snd (ice_candidate st s d)).
         recipients st (em_target e) = rooms st (video_room (sg_roomId d))
       \<and> \<not> has_field (em_payload e) ''targetUserId''
       \<and> field (em_payload e) ''userId'' = JStr (sg_userId d)
       \<and> (s \<in> rooms st (video_room (sg_roomId d)) \<longrightarrow> delivered st s [e] = [e]))"
  by (simp add: video_offer_def video_answer_def ice_candidate_def has_field_def delivered_def)

theorem relay_drops_target_witness:
  "''s1'' \<in> rooms call_room (video_room (sg_roomId offer_to_u2))
   \<and> snd (video_offer call_room ''s1'' offer_to_u2) = [relayed_offer]
   \<and> recipients call_room (em_target relayed_offer) = {''s1'', ''s2'', ''s3''}
   \<and> delivered call_room ''s1'' [relayed_offer] = [relayed_offer]
   \<and> \<not> has_field (em_payload relayed_offer) ''targetUserId''"
proof -
  have m: "''s1'' \<in> rooms call_room (video_room (sg_roomId offer_to_u2))"
    by (simp add: call_room_def video_room_def offer_to_u2_def)
  have r: "rooms call_room (video_room (sg_roomId offer_to_u2)) = {''s1'', ''s2'', ''s3''}"
    by (simp add: call_room_def video_room_def offer_to_u2_def)
  have e: "snd (video_offer call_room ''s1'' offer_to_u2) = [relayed_offer]"
    by (simp add: video_offer_def relayed_offer_def offer_to_u2_def video_room_def)
  then have i: "relayed_offer \<in> set (snd (video_offer call_room ''s1'' offer_to_u2)
                  @ snd (video_answer call_room ''s1'' offer_to_u2)
                  @ snd (ice_candidate call_room ''s1'' offer_to_u2))"
    by simp
  note all = relay_drops_target[of call_room "''s1''" offer_to_u2,
               THEN conjunct2, THEN conjunct2, THEN conjunct2, THEN bspec, OF i]
  from all m r e show ?thesis by simp
qed

end
